theory Spec2Isabelle
  imports Main
begin

section \<open>INMET station A652 scraper: data model\<close>

text \<open>
  The program is one Python class, \<^verbatim>\<open>INMETScraper\<close>, whose methods download a yearly
  ZIP archive, pick the members of one weather station, parse the first of them as
  semicolon separated text and store the table as a parquet file. Python strings and the
  bytes of the archive are both modelled as \<open>string\<close> (a list of 8-bit characters), so the
  latin1 decoding of the member is the identity.
\<close>

type_synonym bytes = string

text \<open>A parsed table (a polars DataFrame), as its rows of fields; the first row names the columns.\<close>

type_synonym table = "string list list"

text \<open>\<^verbatim>\<open>@dataclass class DownloadResult\<close>: both optional fields default to \<open>None\<close>.\<close>

record DownloadResult =
  year :: int
  success :: bool
  file_path :: "string option"
  error_message :: "string option"

text \<open>
  The exceptions of the pipeline, by the \<^verbatim>\<open>except\<close> clause that receives them:
  \<^verbatim>\<open>requests.exceptions.RequestException\<close>, \<^verbatim>\<open>zipfile.BadZipFile\<close>, \<^verbatim>\<open>pl.NoDataError\<close>,
  and every other subclass of \<^verbatim>\<open>Exception\<close>. The argument is \<^verbatim>\<open>str(e)\<close>.
\<close>

datatype exn =
  RequestException string
| BadZipFile string
| NoDataError string
| OtherException string

text \<open>The fields of \<^verbatim>\<open>self\<close> that \<^verbatim>\<open>__init__\<close> sets.\<close>

record scraper =
  base_url :: string
  output_dir :: string
  start_year :: int
  current_year :: int
  station_identifier :: string

text \<open>What the program reads of a \<^verbatim>\<open>requests.Response\<close>: reading the body of a streamed
  response can itself fail.\<close>

record response =
  status_code :: int
  reason :: string
  url :: string
  content :: "exn + bytes"

text \<open>An opened \<^verbatim>\<open>zipfile.ZipFile\<close>: the member names, and what opening a member gives.\<close>

record zip_file =
  namelist :: "string list"
  zip_open :: "string \<Rightarrow> exn + bytes"

text \<open>
  What a call \<^verbatim>\<open>df.write_parquet(path)\<close> does: it returns, and the table is in the file; or
  it raises, either before it has created the file (\<open>Failed x None\<close>) or after, and then
  the file stays at the path with what had been written (\<open>Failed x (Some part)\<close>).
\<close>

datatype write_result = Wrote | Failed exn "table option"

text \<open>
  The world outside the program: the HTTP server, the ZIP decoder, the CSV reader and the
  parquet writer. The first three either raise or return.
\<close>

record env =
  requests_get :: "string \<Rightarrow> exn + response"
  ZipFile :: "bytes \<Rightarrow> exn + zip_file"
  read_csv :: "bytes \<Rightarrow> char \<Rightarrow> string \<Rightarrow> nat \<Rightarrow> exn + table"
  write_parquet :: "table \<Rightarrow> string \<Rightarrow> write_result"

text \<open>
  The state the program changes: the files on disk (path to stored table) and the URLs
  requested over the network so far, oldest first. Log lines are not modelled.
\<close>

record state =
  fs :: "string \<rightharpoonup> table"
  requests :: "string list"

section \<open>Strings and paths\<close>

text \<open>\<^verbatim>\<open>str(n)\<close> of a Python integer, as used by the f-strings.\<close>

definition digit_char :: "nat \<Rightarrow> char" where
  "digit_char d = ''0123456789'' ! d"

function str_nat :: "nat \<Rightarrow> string" where
  "str_nat n = (if n < 10 then [digit_char n] else str_nat (n div 10) @ [digit_char (n mod 10)])"
  by pat_completeness auto
termination
  by (relation "measure (\<lambda>n. n)") auto

declare str_nat.simps [simp del]

definition str_int :: "int \<Rightarrow> string" where
  "str_int i = (if i < 0 then CHR ''-'' # str_nat (nat (- i)) else str_nat (nat i))"

text \<open>\<^verbatim>\<open>name.startswith(s)\<close> and the substring test \<^verbatim>\<open>s in name\<close>.\<close>

fun startswith :: "string \<Rightarrow> string \<Rightarrow> bool" where
  "startswith name [] = True"
| "startswith [] (c # s) = False"
| "startswith (d # name) (c # s) = (d = c \<and> startswith name s)"

fun str_in :: "string \<Rightarrow> string \<Rightarrow> bool" where
  "str_in s [] = (s = [])"
| "str_in s (c # name) = (startswith (c # name) s \<or> str_in s name)"

text \<open>Truth value of an \<^verbatim>\<open>Optional[str]\<close>: \<open>None\<close> and the empty string are false.\<close>

fun truthy :: "string option \<Rightarrow> bool" where
  "truthy None = False"
| "truthy (Some s) = (s \<noteq> [])"

text \<open>\<^verbatim>\<open>os.path.join(a, b)\<close> of \<^verbatim>\<open>posixpath\<close>, for two components.\<close>

definition path_join :: "string \<Rightarrow> string \<Rightarrow> string" where
  "path_join a b =
     (if startswith b ''/'' then b
      else if a = [] \<or> last a = CHR ''/'' then a @ b
      else a @ ''/'' @ b)"

section \<open>The scraper\<close>

text \<open>
  The fields set by \<^verbatim>\<open>__init__\<close>; \<open>now_year\<close> is \<^verbatim>\<open>datetime.now().year\<close>, read once
  here. The call \<^verbatim>\<open>os.makedirs(output_dir, exist_ok=True)\<close> creates a directory, not a file,
  and raises for the empty name: a scraper has a non-empty \<open>output_dir\<close>.
\<close>

definition init :: "string \<Rightarrow> int \<Rightarrow> int \<Rightarrow> scraper" where
  "init out start now_year =
     \<lparr>base_url = ''https://portal.inmet.gov.br/uploads/dadoshistoricos'',
      output_dir = out,
      start_year = start,
      current_year = now_year,
      station_identifier = ''INMET_SE_RJ_A652_RIO DE JANEIRO''\<rparr>"

text \<open>\<^verbatim>\<open>Response.raise_for_status\<close>: an \<^verbatim>\<open>HTTPError\<close> for the status codes 400 to 599.\<close>

definition raise_for_status :: "response \<Rightarrow> exn + unit" where
  "raise_for_status r =
     (if 400 \<le> status_code r \<and> status_code r < 500 then
        Inl (RequestException (str_int (status_code r) @ '' Client Error: '' @ reason r
               @ '' for url: '' @ url r))
      else if 500 \<le> status_code r \<and> status_code r < 600 then
        Inl (RequestException (str_int (status_code r) @ '' Server Error: '' @ reason r
               @ '' for url: '' @ url r))
      else Inr ())"

text \<open>\<^verbatim>\<open>os.path.exists\<close>.\<close>

definition path_exists :: "state \<Rightarrow> string \<Rightarrow> bool" where
  "path_exists st p = (fs st p \<noteq> None)"

text \<open>The two shapes of result the program builds.\<close>

definition ok_result :: "int \<Rightarrow> string \<Rightarrow> DownloadResult" where
  "ok_result y p = \<lparr>year = y, success = True, file_path = Some p, error_message = None\<rparr>"

definition err_result :: "int \<Rightarrow> string \<Rightarrow> DownloadResult" where
  "err_result y m = \<lparr>year = y, success = False, file_path = None, error_message = Some m\<rparr>"

text \<open>
  The loop \<^verbatim>\<open>for station_file in rio_files\<close> (lines 79 to 84): its body returns in the
  first iteration; over an empty list the loop ends and nothing is returned (\<open>None\<close>).
\<close>

fun station_loop ::
  "env \<Rightarrow> zip_file \<Rightarrow> int \<Rightarrow> string \<Rightarrow> state \<Rightarrow> string list
     \<Rightarrow> (exn + DownloadResult option) \<times> state" where
  "station_loop e zip_ref y output_file st [] = (Inr None, st)"
| "station_loop e zip_ref y output_file st (station_file # rest) =
     (case zip_open zip_ref station_file of
        Inl x \<Rightarrow> (Inl x, st)
      | Inr f \<Rightarrow>
          (case read_csv e f CHR '';'' ''latin1'' 8 of
             Inl x \<Rightarrow> (Inl x, st)
           | Inr df \<Rightarrow>
               (case write_parquet e df output_file of
                  Failed x None \<Rightarrow> (Inl x, st)
                | Failed x (Some part) \<Rightarrow>
                    (Inl x, st\<lparr>fs := (fs st)(output_file \<mapsto> part)\<rparr>)
                | Wrote \<Rightarrow>
                    (Inr (Some (ok_result y output_file)),
                     st\<lparr>fs := (fs st)(output_file \<mapsto> df)\<rparr>))))"

text \<open>The address of a year's archive (line 60).\<close>

definition year_url :: "scraper \<Rightarrow> int \<Rightarrow> string" where
  "year_url self y = base_url self @ ''/'' @ str_int y @ ''.zip''"

text \<open>The body of the \<^verbatim>\<open>try\<close> block (lines 60 to 84).\<close>

definition try_block ::
  "scraper \<Rightarrow> env \<Rightarrow> state \<Rightarrow> int \<Rightarrow> string \<Rightarrow> (exn + DownloadResult option) \<times> state" where
  "try_block self e st y output_file =
     (let u = year_url self y;
          st1 = st\<lparr>requests := requests st @ [u]\<rparr>
      in case requests_get e u of
           Inl x \<Rightarrow> (Inl x, st1)
         | Inr resp \<Rightarrow>
             (case raise_for_status resp of
                Inl x \<Rightarrow> (Inl x, st1)
              | Inr _ \<Rightarrow>
                  (case content resp of
                     Inl x \<Rightarrow> (Inl x, st1)
                   | Inr body \<Rightarrow>
                       (case ZipFile e body of
                          Inl x \<Rightarrow> (Inl x, st1)
                        | Inr zip_ref \<Rightarrow>
                            (let rio_files =
                                   filter (str_in (station_identifier self)) (namelist zip_ref)
                             in if rio_files = [] then
                                  (Inr (Some (err_result y
                                     (''No Rio de Janeiro A652 station data found for ''
                                        @ str_int y))), st1)
                                else station_loop e zip_ref y output_file st1 rio_files)))))"

text \<open>The three \<^verbatim>\<open>except\<close> clauses (lines 86 to 97), in the source's order.\<close>

fun handler :: "int \<Rightarrow> exn \<Rightarrow> DownloadResult" where
  "handler y (RequestException m) =
     err_result y (''Error downloading data for '' @ str_int y @ '': '' @ m)"
| "handler y (BadZipFile m) =
     err_result y (''Error processing ZIP file for '' @ str_int y @ '': '' @ m)"
| "handler y (NoDataError m) =
     err_result y (''Error processing ZIP file for '' @ str_int y @ '': '' @ m)"
| "handler y (OtherException m) =
     err_result y (''Unexpected error processing '' @ str_int y @ '': '' @ m)"

text \<open>The path of the output file of a year (line 53).\<close>

definition output_file_of :: "scraper \<Rightarrow> int \<Rightarrow> string" where
  "output_file_of self y = path_join (output_dir self) (''RJ_A652_'' @ str_int y @ ''.parquet'')"

text \<open>
  \<^verbatim>\<open>process_year\<close>. The result is \<open>Inl\<close> for an exception that leaves the method,
  \<open>Inr None\<close> for a return without a value and \<open>Inr (Some r)\<close> for a returned record.
\<close>

definition process_year ::
  "scraper \<Rightarrow> env \<Rightarrow> state \<Rightarrow> int \<Rightarrow> (exn + DownloadResult option) \<times> state" where
  "process_year self e st y =
     (let output_file = output_file_of self y
      in if path_exists st output_file then (Inr (Some (ok_result y output_file)), st)
         else (case try_block self e st y output_file of
                 (Inl x, st') \<Rightarrow> (Inr (Some (handler y x)), st')
               | (Inr r, st') \<Rightarrow> (Inr r, st')))"

text \<open>\<^verbatim>\<open>range(a, b)\<close> over integers.\<close>

definition py_range :: "int \<Rightarrow> int \<Rightarrow> int list" where
  "py_range a b = [a..b - 1]"

text \<open>
  The loop of \<^verbatim>\<open>process_all_years\<close>: an exception of \<^verbatim>\<open>process_year\<close> would end it,
  a returned value (also \<open>None\<close>) is appended.
\<close>

fun years_loop ::
  "scraper \<Rightarrow> env \<Rightarrow> state \<Rightarrow> int list \<Rightarrow> DownloadResult option list
     \<Rightarrow> (exn + DownloadResult option list) \<times> state" where
  "years_loop self e st [] results = (Inr results, st)"
| "years_loop self e st (y # ys) results =
     (case process_year self e st y of
        (Inl x, st') \<Rightarrow> (Inl x, st')
      | (Inr result, st') \<Rightarrow> years_loop self e st' ys (results @ [result]))"

definition process_all_years ::
  "scraper \<Rightarrow> env \<Rightarrow> state \<Rightarrow> (exn + DownloadResult option list) \<times> state" where
  "process_all_years self e st =
     years_loop self e st (py_range (start_year self) (current_year self + 1)) []"

text \<open>The two list comprehensions of lines 112 to 119.\<close>

definition get_successful_downloads :: "DownloadResult list \<Rightarrow> string list" where
  "get_successful_downloads results =
     map (\<lambda>r. the (file_path r)) (filter (\<lambda>r. success r \<and> truthy (file_path r)) results)"

definition get_failed_downloads :: "DownloadResult list \<Rightarrow> (int \<times> string) list" where
  "get_failed_downloads results =
     map (\<lambda>r. (year r, the (error_message r)))
       (filter (\<lambda>r. \<not> success r \<and> truthy (error_message r)) results)"

section \<open>Example worlds\<close>

definition unlines :: "string list \<Rightarrow> string" where
  "unlines ls = concat (map (\<lambda>l. l @ [CHR 0x0A]) ls)"

text \<open>A station file with eight leading lines, the column names \<open>a;b\<close> and two rows.\<close>

definition station_csv :: bytes where
  "station_csv = unlines [''h1'', ''h2'', ''h3'', ''h4'', ''h5'', ''h6'', ''h7'', ''h8'',
     ''a;b'', ''c;d'', ''e;f'']"

text \<open>A station file with ten leading lines before \<open>a;b\<close> and \<open>c;d\<close>.\<close>

definition ten_line_csv :: bytes where
  "ten_line_csv = unlines [''h1'', ''h2'', ''h3'', ''h4'', ''h5'', ''h6'', ''h7'', ''h8'',
     ''h9'', ''h10'', ''a;b'', ''c;d'']"

text \<open>
  What \<^verbatim>\<open>pl.read_csv\<close> answers on the two files of the examples. With eight lines skipped
  the first file has the columns \<open>a\<close> and \<open>b\<close> and two rows. With ten lines skipped the
  second file has one row; with eight skipped its ninth line \<open>h9\<close> names a single column
  and the rows of two fields are refused with an exception that is none of the request,
  archive or no-data exceptions. Any other call belongs to no example and raises here.
\<close>

definition example_read_csv :: "bytes \<Rightarrow> char \<Rightarrow> string \<Rightarrow> nat \<Rightarrow> exn + table" where
  "example_read_csv f sep encoding skip_rows =
     (if f = station_csv \<and> sep = CHR '';'' \<and> encoding = ''latin1'' \<and> skip_rows = 8 then
        Inr [[''a'', ''b''], [''c'', ''d''], [''e'', ''f'']]
      else if f = ten_line_csv \<and> sep = CHR '';'' \<and> encoding = ''latin1'' \<and> skip_rows = 10 then
        Inr [[''a'', ''b''], [''c'', ''d'']]
      else Inl (OtherException ''found more fields than defined in Schema''))"

definition station_name :: string where
  "station_name = ''2020/INMET_SE_RJ_A652_RIO DE JANEIRO_01-01-2020_A_31-12-2020.CSV''"

definition other_name :: string where
  "other_name = ''INMET_SE_SP_A701_SAO PAULO.CSV''"

definition zip_with_station :: zip_file where
  "zip_with_station =
     \<lparr>namelist = [other_name, station_name],
      zip_open = (\<lambda>n. if n = station_name then Inr station_csv
                       else Inl (OtherException ''KeyError''))\<rparr>"

definition zip_ten_lines :: zip_file where
  "zip_ten_lines =
     \<lparr>namelist = [other_name, station_name],
      zip_open = (\<lambda>n. if n = station_name then Inr ten_line_csv
                       else Inl (OtherException ''KeyError''))\<rparr>"

definition zip_without_station :: zip_file where
  "zip_without_station =
     \<lparr>namelist = [other_name], zip_open = (\<lambda>n. Inl (OtherException ''KeyError''))\<rparr>"

definition ok_response :: "string \<Rightarrow> response" where
  "ok_response u = \<lparr>status_code = 200, reason = ''OK'', url = u, content = Inr ''PK''\<rparr>"

definition not_found_response :: "string \<Rightarrow> response" where
  "not_found_response u =
     \<lparr>status_code = 404, reason = ''Not Found'', url = u, content = Inr []\<rparr>"

text \<open>The server has the archive and the archive has the station file with eight leading lines.\<close>

definition world_station :: env where
  "world_station =
     \<lparr>requests_get = (\<lambda>u. Inr (ok_response u)),
      ZipFile = (\<lambda>b. Inr zip_with_station),
      read_csv = example_read_csv,
      write_parquet = (\<lambda>df p. Wrote)\<rparr>"

text \<open>The same, with the station file that has ten leading lines.\<close>

definition world_ten_lines :: env where
  "world_ten_lines =
     \<lparr>requests_get = (\<lambda>u. Inr (ok_response u)),
      ZipFile = (\<lambda>b. Inr zip_ten_lines),
      read_csv = example_read_csv,
      write_parquet = (\<lambda>df p. Wrote)\<rparr>"

text \<open>The disk fills up while the table is written: the file is there, cut short.\<close>

definition world_disk_full :: env where
  "world_disk_full =
     \<lparr>requests_get = (\<lambda>u. Inr (ok_response u)),
      ZipFile = (\<lambda>b. Inr zip_with_station),
      read_csv = example_read_csv,
      write_parquet = (\<lambda>df p. Failed (OtherException ''No space left on device'') (Some []))\<rparr>"

text \<open>The server has the archive, the archive lacks the station.\<close>

definition world_no_station :: env where
  "world_no_station =
     \<lparr>requests_get = (\<lambda>u. Inr (ok_response u)),
      ZipFile = (\<lambda>b. Inr zip_without_station),
      read_csv = example_read_csv,
      write_parquet = (\<lambda>df p. Wrote)\<rparr>"

text \<open>The server answers 404.\<close>

definition world_404 :: env where
  "world_404 =
     \<lparr>requests_get = (\<lambda>u. Inr (not_found_response u)),
      ZipFile = (\<lambda>b. Inl (BadZipFile ''File is not a zip file'')),
      read_csv = example_read_csv,
      write_parquet = (\<lambda>df p. Wrote)\<rparr>"

text \<open>An empty disk and no request made yet.\<close>

definition st0 :: state where
  "st0 = \<lparr>fs = Map.empty, requests = []\<rparr>"

text \<open>The scraper of the examples, made in 2021.\<close>

definition example_self :: scraper where
  "example_self = init ''out'' 2019 2021"

section \<open>How a call of \<^verbatim>\<open>process_year\<close> can end\<close>

lemma err_result_eq [simp]: "(err_result y m = err_result y' m') = (y = y' \<and> m = m')"
  by (auto simp: err_result_def)

lemma ok_result_eq [simp]: "(ok_result y p = ok_result y' p') = (y = y' \<and> p = p')"
  by (auto simp: ok_result_def)

lemma err_result_neq_ok [simp]: "err_result y m \<noteq> ok_result y' p" "ok_result y' p \<noteq> err_result y m"
  by (auto simp: err_result_def ok_result_def)

lemma ok_result_sel [simp]:
  "year (ok_result y p) = y" "success (ok_result y p)"
  "file_path (ok_result y p) = Some p" "error_message (ok_result y p) = None"
  by (simp_all add: ok_result_def)

lemma err_result_sel [simp]:
  "year (err_result y m) = y" "\<not> success (err_result y m)"
  "file_path (err_result y m) = None" "error_message (err_result y m) = Some m"
  by (simp_all add: err_result_def)

lemma station_loop_shape:
  assumes "rio_files \<noteq> []"
  shows "(\<exists>x. station_loop e z y p st rio_files = (Inl x, st)) \<or>
         (\<exists>df x part. write_parquet e df p = Failed x (Some part) \<and>
                station_loop e z y p st rio_files =
                  (Inl x, st\<lparr>fs := (fs st)(p \<mapsto> part)\<rparr>)) \<or>
         (\<exists>df. station_loop e z y p st rio_files =
                (Inr (Some (ok_result y p)), st\<lparr>fs := (fs st)(p \<mapsto> df)\<rparr>))"
proof (cases rio_files)
  case Nil
  with assms show ?thesis by simp
next
  case (Cons station_file rest)
  show ?thesis
  proof (cases "zip_open z station_file")
    case (Inl x)
    with Cons show ?thesis by simp
  next
    case opened: (Inr f)
    show ?thesis
    proof (cases "read_csv e f CHR '';'' ''latin1'' 8")
      case (Inl x)
      with Cons opened show ?thesis by simp
    next
      case parsed: (Inr df)
      show ?thesis
      proof (cases "write_parquet e df p")
        case Wrote
        with Cons opened parsed show ?thesis by auto
      next
        case (Failed x left)
        show ?thesis
        proof (cases left)
          case None
          with Cons opened parsed Failed show ?thesis by simp
        next
          case (Some part)
          with Cons opened parsed Failed
          have "station_loop e z y p st rio_files = (Inl x, st\<lparr>fs := (fs st)(p \<mapsto> part)\<rparr>)"
            by simp
          moreover have "write_parquet e df p = Failed x (Some part)"
            using Failed Some by simp
          ultimately show ?thesis by blast
        qed
      qed
    qed
  qed
qed

lemma try_block_shape:
  "(\<exists>x. try_block self e st y p = (Inl x, st\<lparr>requests := requests st @ [year_url self y]\<rparr>)) \<or>
   (\<exists>df x part. write_parquet e df p = Failed x (Some part) \<and>
      try_block self e st y p =
        (Inl x, st\<lparr>requests := requests st @ [year_url self y], fs := (fs st)(p \<mapsto> part)\<rparr>)) \<or>
   (\<exists>m. m \<noteq> [] \<and> try_block self e st y p =
          (Inr (Some (err_result y m)), st\<lparr>requests := requests st @ [year_url self y]\<rparr>)) \<or>
   (\<exists>df. try_block self e st y p =
          (Inr (Some (ok_result y p)),
           st\<lparr>requests := requests st @ [year_url self y], fs := (fs st)(p \<mapsto> df)\<rparr>))"
proof -
  let ?st1 = "st\<lparr>requests := requests st @ [year_url self y]\<rparr>"
  show ?thesis
  proof (cases "requests_get e (year_url self y)")
    case (Inl x)
    then show ?thesis by (simp add: try_block_def Let_def)
  next
    case get: (Inr resp)
    show ?thesis
    proof (cases "raise_for_status resp")
      case (Inl x)
      with get show ?thesis by (simp add: try_block_def Let_def)
    next
      case status: (Inr u)
      show ?thesis
      proof (cases "content resp")
        case (Inl x)
        with get status show ?thesis by (simp add: try_block_def Let_def)
      next
        case body: (Inr b)
        show ?thesis
        proof (cases "ZipFile e b")
          case (Inl x)
          with get status body show ?thesis by (simp add: try_block_def Let_def)
        next
          case zip: (Inr z)
          let ?rio = "filter (str_in (station_identifier self)) (namelist z)"
          show ?thesis
          proof (cases "?rio = []")
            case True
            with get status body zip show ?thesis
              by (simp add: try_block_def Let_def)
          next
            case False
            have run: "try_block self e st y p = station_loop e z y p ?st1 ?rio"
              using get status body zip False by (simp add: try_block_def Let_def)
            from station_loop_shape [OF False, of e z y p ?st1]
            consider (raised) x where "station_loop e z y p ?st1 ?rio = (Inl x, ?st1)"
              | (left) df x part where "write_parquet e df p = Failed x (Some part)"
                  "station_loop e z y p ?st1 ?rio = (Inl x, ?st1\<lparr>fs := (fs ?st1)(p \<mapsto> part)\<rparr>)"
              | (wrote) df where "station_loop e z y p ?st1 ?rio =
                     (Inr (Some (ok_result y p)), ?st1\<lparr>fs := (fs ?st1)(p \<mapsto> df)\<rparr>)"
              by blast
            then show ?thesis
            proof cases
              case raised
              with run show ?thesis by simp
            next
              case left
              with run have "try_block self e st y p =
                  (Inl x, st\<lparr>requests := requests st @ [year_url self y],
                     fs := (fs st)(p \<mapsto> part)\<rparr>)" by simp
              with left(1) show ?thesis by blast
            next
              case wrote
              with run show ?thesis by auto
            qed
          qed
        qed
      qed
    qed
  qed
qed

lemma handler_shape: "\<exists>m. m \<noteq> [] \<and> handler y x = err_result y m"
  by (cases x) simp_all

lemma process_year_shape:
  "(path_exists st (output_file_of self y) \<and>
      process_year self e st y = (Inr (Some (ok_result y (output_file_of self y))), st)) \<or>
   (\<not> path_exists st (output_file_of self y) \<and>
      (\<exists>m. m \<noteq> [] \<and> process_year self e st y =
         (Inr (Some (err_result y m)), st\<lparr>requests := requests st @ [year_url self y]\<rparr>))) \<or>
   (\<not> path_exists st (output_file_of self y) \<and>
      (\<exists>m df x part. m \<noteq> [] \<and>
         write_parquet e df (output_file_of self y) = Failed x (Some part) \<and>
         process_year self e st y =
         (Inr (Some (err_result y m)),
          st\<lparr>requests := requests st @ [year_url self y],
             fs := (fs st)(output_file_of self y \<mapsto> part)\<rparr>))) \<or>
   (\<not> path_exists st (output_file_of self y) \<and>
      (\<exists>df. process_year self e st y =
         (Inr (Some (ok_result y (output_file_of self y))),
          st\<lparr>requests := requests st @ [year_url self y],
             fs := (fs st)(output_file_of self y \<mapsto> df)\<rparr>)))"
proof (cases "path_exists st (output_file_of self y)")
  case True
  then show ?thesis by (simp add: process_year_def)
next
  case False
  let ?p = "output_file_of self y"
  let ?st1 = "st\<lparr>requests := requests st @ [year_url self y]\<rparr>"
  from try_block_shape [of self e st y ?p]
  consider (raised) x where "try_block self e st y ?p = (Inl x, ?st1)"
    | (left) df x part where "write_parquet e df ?p = Failed x (Some part)"
        "try_block self e st y ?p =
           (Inl x, st\<lparr>requests := requests st @ [year_url self y], fs := (fs st)(?p \<mapsto> part)\<rparr>)"
    | (failed) m where "m \<noteq> []" "try_block self e st y ?p = (Inr (Some (err_result y m)), ?st1)"
    | (wrote) df where "try_block self e st y ?p =
        (Inr (Some (ok_result y ?p)),
         st\<lparr>requests := requests st @ [year_url self y], fs := (fs st)(?p \<mapsto> df)\<rparr>)"
    by blast
  then show ?thesis
  proof cases
    case raised
    obtain m where "m \<noteq> []" "handler y x = err_result y m"
      using handler_shape by blast
    with raised False show ?thesis by (auto simp: process_year_def Let_def)
  next
    case left
    obtain m where m: "m \<noteq> []" "handler y x = err_result y m"
      using handler_shape by blast
    with left(2) False have "process_year self e st y =
         (Inr (Some (err_result y m)),
          st\<lparr>requests := requests st @ [year_url self y], fs := (fs st)(?p \<mapsto> part)\<rparr>)"
      by (simp add: process_year_def Let_def)
    with m(1) left(1) False show ?thesis by blast
  next
    case failed
    with False show ?thesis by (auto simp: process_year_def Let_def)
  next
    case wrote
    with False show ?thesis by (auto simp: process_year_def Let_def)
  qed
qed

lemma process_year_returns:
  "\<exists>r st'. process_year self e st y = (Inr (Some r), st') \<and> year r = y \<and>
      (success r \<longleftrightarrow> truthy (file_path r)) \<and> (\<not> success r \<longleftrightarrow> truthy (error_message r))"
proof -
  have "output_file_of self y \<noteq> []"
    by (simp add: output_file_of_def path_join_def)
  then show ?thesis
    using process_year_shape [of st self y e] by auto
qed

lemma process_year_success_path:
  assumes "fst (process_year self e st y) = Inr (Some r)" "success r"
  shows "r = ok_result y (output_file_of self y)"
  using process_year_shape [of st self y e] assms
  by auto

section \<open>The example runs\<close>

lemma str_int_examples:
  "str_int 2019 = ''2019''" "str_int 2020 = ''2020''" "str_int 2021 = ''2021''"
  "str_int 2022 = ''2022''" "str_int 404 = ''404''"
  by (simp_all add: str_int_def str_nat.simps digit_char_def)

lemma example_output_dir: "output_dir example_self = ''out''"
  by (simp add: example_self_def init_def)

lemma example_output_file:
  "output_file_of example_self 2019 = ''out/RJ_A652_2019.parquet''"
  "output_file_of example_self 2020 = ''out/RJ_A652_2020.parquet''"
  "output_file_of example_self 2021 = ''out/RJ_A652_2021.parquet''"
  "output_file_of example_self 2022 = ''out/RJ_A652_2022.parquet''"
  by (simp_all add: output_file_of_def example_self_def init_def path_join_def str_int_examples)

lemma example_members:
  "filter (str_in (station_identifier example_self)) (namelist zip_with_station) = [station_name]"
  "filter (str_in (station_identifier example_self)) (namelist zip_ten_lines) = [station_name]"
  "filter (str_in (station_identifier example_self)) (namelist zip_without_station) = []"
  by (simp_all add: example_self_def init_def zip_with_station_def zip_ten_lines_def
        zip_without_station_def station_name_def other_name_def)

lemma csv_differ: "ten_line_csv \<noteq> station_csv"
  by (simp add: ten_line_csv_def station_csv_def unlines_def)

lemma example_tables:
  "example_read_csv station_csv CHR '';'' ''latin1'' 8 =
     Inr [[''a'', ''b''], [''c'', ''d''], [''e'', ''f'']]"
  "example_read_csv ten_line_csv CHR '';'' ''latin1'' 10 = Inr [[''a'', ''b''], [''c'', ''d'']]"
  "example_read_csv ten_line_csv CHR '';'' ''latin1'' 8 =
     Inl (OtherException ''found more fields than defined in Schema'')"
  by (simp_all add: example_read_csv_def csv_differ)

lemma st0_absent: "\<not> path_exists st0 p"
  by (simp add: path_exists_def st0_def)

lemma st0_sel: "fs st0 = Map.empty" "requests st0 = []"
  by (simp_all add: st0_def)

lemma example_status:
  "raise_for_status (ok_response u) = Inr ()"
  "raise_for_status (not_found_response u) =
     Inl (RequestException (''404 Client Error: Not Found for url: '' @ u))"
  by (simp_all add: raise_for_status_def ok_response_def not_found_response_def str_int_examples)

lemma world_station_simps:
  "requests_get world_station u = Inr (ok_response u)"
  "ZipFile world_station b = Inr zip_with_station"
  "read_csv world_station = example_read_csv"
  "write_parquet world_station df p = Wrote"
  by (simp_all add: world_station_def)

lemma world_ten_lines_simps:
  "requests_get world_ten_lines u = Inr (ok_response u)"
  "ZipFile world_ten_lines b = Inr zip_ten_lines"
  "read_csv world_ten_lines = example_read_csv"
  "write_parquet world_ten_lines df p = Wrote"
  by (simp_all add: world_ten_lines_def)

lemma world_disk_full_simps:
  "requests_get world_disk_full u = Inr (ok_response u)"
  "ZipFile world_disk_full b = Inr zip_with_station"
  "read_csv world_disk_full = example_read_csv"
  "write_parquet world_disk_full df p =
     Failed (OtherException ''No space left on device'') (Some [])"
  by (simp_all add: world_disk_full_def)

lemma world_no_station_simps:
  "requests_get world_no_station u = Inr (ok_response u)"
  "ZipFile world_no_station b = Inr zip_without_station"
  by (simp_all add: world_no_station_def)

lemma world_404_simps:
  "requests_get world_404 u = Inr (not_found_response u)"
  by (simp_all add: world_404_def)

lemma example_content: "content (ok_response u) = Inr ''PK''"
  by (simp add: ok_response_def)

lemma example_open:
  "zip_open zip_with_station station_name = Inr station_csv"
  "zip_open zip_ten_lines station_name = Inr ten_line_csv"
  by (simp_all add: zip_with_station_def zip_ten_lines_def)

lemma example_station_2020:
  "process_year example_self world_station st0 2020 =
     (Inr (Some (ok_result 2020 ''out/RJ_A652_2020.parquet'')),
      st0\<lparr>requests := requests st0 @ [year_url example_self 2020],
          fs := (fs st0)(''out/RJ_A652_2020.parquet'' \<mapsto>
                   [[''a'', ''b''], [''c'', ''d''], [''e'', ''f'']])\<rparr>)"
  by (simp add: process_year_def try_block_def Let_def st0_absent example_output_file
        world_station_simps example_status example_content example_members
        example_open example_tables)

lemma example_ten_lines_2020:
  "process_year example_self world_ten_lines st0 2020 =
     (Inr (Some (err_result 2020
        ''Unexpected error processing 2020: found more fields than defined in Schema'')),
      st0\<lparr>requests := requests st0 @ [year_url example_self 2020]\<rparr>)"
  by (simp add: process_year_def try_block_def Let_def st0_absent example_output_file
        world_ten_lines_simps example_status example_content example_members
        example_open example_tables str_int_examples)

lemma example_disk_full_2020:
  "process_year example_self world_disk_full st0 2020 =
     (Inr (Some (err_result 2020
        ''Unexpected error processing 2020: No space left on device'')),
      st0\<lparr>requests := requests st0 @ [year_url example_self 2020],
          fs := (fs st0)(''out/RJ_A652_2020.parquet'' \<mapsto> [])\<rparr>)"
  by (simp add: process_year_def try_block_def Let_def st0_absent example_output_file
        world_disk_full_simps example_status example_content example_members
        example_open example_tables str_int_examples)

lemma example_no_station_2021:
  "process_year example_self world_no_station st0 2021 =
     (Inr (Some (err_result 2021 ''No Rio de Janeiro A652 station data found for 2021'')),
      st0\<lparr>requests := requests st0 @ [year_url example_self 2021]\<rparr>)"
  by (simp add: process_year_def try_block_def Let_def st0_absent example_output_file
        world_no_station_simps example_status example_content example_members
        str_int_examples)

lemma example_404:
  "\<not> path_exists st (output_file_of example_self y) \<Longrightarrow>
   process_year example_self world_404 st y =
     (Inr (Some (err_result y (''Error downloading data for '' @ str_int y
        @ '': 404 Client Error: Not Found for url: '' @ year_url example_self y))),
      st\<lparr>requests := requests st @ [year_url example_self y]\<rparr>)"
  by (simp add: process_year_def try_block_def Let_def world_404_simps example_status)

lemma truthy_iff: "truthy x \<longleftrightarrow> (\<exists>s. x = Some s \<and> s \<noteq> [])"
  by (cases x) auto

lemma successful_member:
  "p \<in> set (get_successful_downloads results) \<longleftrightarrow>
     (\<exists>r \<in> set results. success r \<and> file_path r = Some p \<and> p \<noteq> [])"
proof
  assume "p \<in> set (get_successful_downloads results)"
  then obtain r where r: "r \<in> set results" "success r" "truthy (file_path r)"
    "p = the (file_path r)"
    by (auto simp: get_successful_downloads_def)
  from r(3) obtain s where "file_path r = Some s" "s \<noteq> []"
    unfolding truthy_iff by blast
  with r show "\<exists>r \<in> set results. success r \<and> file_path r = Some p \<and> p \<noteq> []"
    by auto
next
  assume "\<exists>r \<in> set results. success r \<and> file_path r = Some p \<and> p \<noteq> []"
  then obtain r where r: "r \<in> set results" "success r" "file_path r = Some p" "p \<noteq> []"
    by blast
  have "the (file_path r) \<in> (\<lambda>r. the (file_path r)) ` {r \<in> set results. success r \<and> truthy (file_path r)}"
    using r by (intro imageI) simp
  then show "p \<in> set (get_successful_downloads results)"
    using r(3) by (simp add: get_successful_downloads_def)
qed

lemma failed_member:
  "(y, m) \<in> set (get_failed_downloads results) \<longleftrightarrow>
     (\<exists>r \<in> set results. \<not> success r \<and> year r = y \<and> error_message r = Some m \<and> m \<noteq> [])"
proof
  assume "(y, m) \<in> set (get_failed_downloads results)"
  then obtain r where r: "r \<in> set results" "\<not> success r" "truthy (error_message r)"
    "y = year r" "m = the (error_message r)"
    by (auto simp: get_failed_downloads_def)
  from r(3) obtain s where "error_message r = Some s" "s \<noteq> []"
    unfolding truthy_iff by blast
  with r show "\<exists>r \<in> set results. \<not> success r \<and> year r = y \<and> error_message r = Some m \<and> m \<noteq> []"
    by auto
next
  assume "\<exists>r \<in> set results. \<not> success r \<and> year r = y \<and> error_message r = Some m \<and> m \<noteq> []"
  then obtain r where r: "r \<in> set results" "\<not> success r" "year r = y"
    "error_message r = Some m" "m \<noteq> []"
    by blast
  have "(year r, the (error_message r)) \<in> (\<lambda>r. (year r, the (error_message r))) `
      {r \<in> set results. \<not> success r \<and> truthy (error_message r)}"
    using r by (intro imageI) simp
  then show "(y, m) \<in> set (get_failed_downloads results)"
    using r(3,4) by (simp add: get_failed_downloads_def)
qed

lemma failed_years:
  "fst ` set (get_failed_downloads results) =
     year ` {r \<in> set results. \<not> success r \<and> truthy (error_message r)}"
  by (simp add: get_failed_downloads_def image_image)

lemma example_results_produced:
  "\<forall>r \<in> set [ok_result 2020 ''out/RJ_A652_2020.parquet'',
       err_result 2021 ''No Rio de Janeiro A652 station data found for 2021''].
     \<exists>self e st y. fst (process_year self e st y) = Inr (Some r)"
proof -
  have "fst (process_year example_self world_station st0 2020) =
      Inr (Some (ok_result 2020 ''out/RJ_A652_2020.parquet''))"
    by (simp add: example_station_2020)
  then have a: "\<exists>self e st y. fst (process_year self e st y) =
      Inr (Some (ok_result 2020 ''out/RJ_A652_2020.parquet''))" by blast
  have "fst (process_year example_self world_no_station st0 2021) =
      Inr (Some (err_result 2021 ''No Rio de Janeiro A652 station data found for 2021''))"
    by (simp add: example_no_station_2021)
  then have b: "\<exists>self e st y. fst (process_year self e st y) =
      Inr (Some (err_result 2021 ''No Rio de Janeiro A652 station data found for 2021''))"
    by blast
  from a b show ?thesis by simp
qed

section \<open>The shape of a result\<close>

text \<open>
  Claim C3: every call of \<open>process_year\<close> returns a record in which \<open>success\<close> holds
  exactly when \<open>file_path\<close> is set and \<open>error_message\<close> is unset, and fails exactly
  when \<open>error_message\<close> is set and \<open>file_path\<close> is unset, so exactly one of the two
  optional fields is present; the field that is set is moreover a non-empty string.
\<close>

theorem outcome_exclusive:
  "\<exists>r. fst (process_year self e st y) = Inr (Some r) \<and>
       (success r \<longleftrightarrow> file_path r \<noteq> None \<and> error_message r = None) \<and>
       (\<not> success r \<longleftrightarrow> error_message r \<noteq> None \<and> file_path r = None) \<and>
       ((file_path r \<noteq> None) \<noteq> (error_message r \<noteq> None)) \<and>
       (success r \<longleftrightarrow> truthy (file_path r)) \<and>
       (\<not> success r \<longleftrightarrow> truthy (error_message r))"
proof -
  have ok: "output_file_of self y \<noteq> []"
    by (simp add: output_file_of_def path_join_def)
  from process_year_shape [of st self y e]
  consider "fst (process_year self e st y) = Inr (Some (ok_result y (output_file_of self y)))"
    | m where "m \<noteq> []" "fst (process_year self e st y) = Inr (Some (err_result y m))"
    by auto
  then show ?thesis
  proof cases
    case 1
    with ok show ?thesis by simp
  next
    case 2
    then show ?thesis by simp
  qed
qed

text \<open>The successful run for 2020.\<close>

theorem outcome_exclusive_witness:
  "fst (process_year example_self world_station st0 2020) =
     Inr (Some (ok_result 2020 ''out/RJ_A652_2020.parquet'')) \<and>
   success (ok_result 2020 ''out/RJ_A652_2020.parquet'') \<and>
   file_path (ok_result 2020 ''out/RJ_A652_2020.parquet'') \<noteq> None \<and>
   error_message (ok_result 2020 ''out/RJ_A652_2020.parquet'') = None"
  using outcome_exclusive [of example_self world_station st0 2020]
  by (simp add: example_station_2020)

section \<open>Failures are results\<close>

text \<open>
  Claim C6: for every scraper, world, state and year, \<open>process_year\<close> returns a record
  and no exception leaves it: whatever exception the \<open>try\<close> block raises (a request
  exception, a bad archive or an empty file, or any other) is turned by its handler into a
  failure record with a non-empty message.
\<close>

theorem process_year_never_raises:
  "(\<exists>r. fst (process_year self e st y) = Inr (Some r)) \<and>
   (\<forall>x st'. \<not> path_exists st (output_file_of self y) \<and>
       try_block self e st y (output_file_of self y) = (Inl x, st') \<longrightarrow>
       process_year self e st y = (Inr (Some (handler y x)), st') \<and>
       \<not> success (handler y x) \<and> truthy (error_message (handler y x)))"
proof -
  have "\<exists>r. fst (process_year self e st y) = Inr (Some r)"
    using process_year_shape [of st self y e] by auto
  moreover have "\<not> success (handler y x) \<and> truthy (error_message (handler y x))" for x
    using handler_shape [of y x] by auto
  ultimately show ?thesis by (simp add: process_year_def)
qed

text \<open>The server answers 404 for 2022.\<close>

theorem process_year_never_raises_witness:
  "\<not> path_exists st0 (output_file_of example_self 2022) \<and>
   try_block example_self world_404 st0 2022 (output_file_of example_self 2022) =
     (Inl (RequestException (''404 Client Error: Not Found for url: '' @ year_url example_self 2022)),
      st0\<lparr>requests := requests st0 @ [year_url example_self 2022]\<rparr>) \<and>
   fst (process_year example_self world_404 st0 2022) =
     Inr (Some (err_result 2022 (''Error downloading data for 2022: 404 Client Error: Not Found for url: ''
        @ year_url example_self 2022)))"
proof -
  have t: "try_block example_self world_404 st0 2022 (output_file_of example_self 2022) =
     (Inl (RequestException (''404 Client Error: Not Found for url: '' @ year_url example_self 2022)),
      st0\<lparr>requests := requests st0 @ [year_url example_self 2022]\<rparr>)"
    by (simp add: try_block_def Let_def world_404_simps example_status)
  from process_year_never_raises [of example_self world_404 st0 2022] t st0_absent
  have "process_year example_self world_404 st0 2022 =
      (Inr (Some (handler 2022 (RequestException (''404 Client Error: Not Found for url: ''
          @ year_url example_self 2022)))),
       st0\<lparr>requests := requests st0 @ [year_url example_self 2022]\<rparr>)"
    by blast
  with t show ?thesis by (simp add: st0_absent str_int_examples)
qed

text \<open>
  Claim C7: when the download is made (the output file is absent) and succeeds, the
  archive opens and no member name contains the station identifier, \<open>process_year\<close>
  returns the failure whose message is \<open>No Rio de Janeiro A652 station data found for\<close>
  followed by the year.
\<close>

theorem no_station_data:
  assumes "\<not> path_exists st (output_file_of self y)"
    and "requests_get e (year_url self y) = Inr resp"
    and "raise_for_status resp = Inr ()"
    and "content resp = Inr body"
    and "ZipFile e body = Inr zip_ref"
    and "filter (str_in (station_identifier self)) (namelist zip_ref) = []"
  shows "process_year self e st y =
           (Inr (Some (err_result y
              (''No Rio de Janeiro A652 station data found for '' @ str_int y))),
            st\<lparr>requests := requests st @ [year_url self y]\<rparr>)"
  using assms by (simp add: process_year_def try_block_def Let_def)

text \<open>The archive of 2021 without the station.\<close>

theorem no_station_data_witness:
  "process_year example_self world_no_station st0 2021 =
     (Inr (Some \<lparr>year = 2021, success = False, file_path = None,
        error_message = Some ''No Rio de Janeiro A652 station data found for 2021''\<rparr>),
      st0\<lparr>requests := requests st0 @ [year_url example_self 2021]\<rparr>)"
  using no_station_data [of st0 example_self 2021 world_no_station
      "ok_response (year_url example_self 2021)" "''PK''" zip_without_station]
  by (simp add: st0_absent world_no_station_simps example_status example_content
        example_members str_int_examples err_result_def)

text \<open>
  Claim C10: when \<open>start_year\<close> is greater than the \<open>current_year\<close> read at
  construction, \<open>process_all_years\<close> returns the empty list and the state (the files and
  the list of requests) is unchanged.
\<close>

theorem empty_range:
  assumes "current_year self < start_year self"
  shows "process_all_years self e st = (Inr [], st)"
  using assms by (simp add: process_all_years_def py_range_def)

text \<open>A scraper for 2030 made in 2026.\<close>

theorem empty_range_witness:
  "current_year (init ''out'' 2030 2026) < start_year (init ''out'' 2030 2026) \<and>
   process_all_years (init ''out'' 2030 2026) world_station st0 = (Inr [], st0)"
  using empty_range [of "init ''out'' 2030 2026" world_station st0]
  by (simp add: init_def)

section \<open>The two projections\<close>

text \<open>
  Claim C9: for every list of results that \<open>process_year\<close> produced,
  \<open>get_successful_downloads\<close> holds exactly the paths of the successes with a non-empty
  \<open>file_path\<close>, \<open>get_failed_downloads\<close> holds exactly the pairs of year and message of
  the failures with a non-empty \<open>error_message\<close>, the years of the records the two
  selections keep are together the years of all records, and the two selections have as
  many entries together as the list: no record is dropped by both.
\<close>

theorem partition_complete:
  assumes "\<forall>r \<in> set results. \<exists>self e st y. fst (process_year self e st y) = Inr (Some r)"
  shows "(\<forall>p. p \<in> set (get_successful_downloads results) \<longleftrightarrow>
            (\<exists>r \<in> set results. success r \<and> file_path r = Some p \<and> p \<noteq> [])) \<and>
         (\<forall>y m. (y, m) \<in> set (get_failed_downloads results) \<longleftrightarrow>
            (\<exists>r \<in> set results. \<not> success r \<and> year r = y \<and> error_message r = Some m \<and> m \<noteq> [])) \<and>
         year ` {r \<in> set results. success r \<and> truthy (file_path r)} \<union>
           fst ` set (get_failed_downloads results) = year ` set results \<and>
         length (get_successful_downloads results) + length (get_failed_downloads results) =
           length results"
proof -
  have wf: "(success r \<longleftrightarrow> truthy (file_path r)) \<and> (\<not> success r \<longleftrightarrow> truthy (error_message r))"
    if "r \<in> set results" for r
  proof -
    from assms that obtain self e st y where run: "fst (process_year self e st y) = Inr (Some r)"
      by blast
    from process_year_returns [of self e st y]
    obtain r' st' where "process_year self e st y = (Inr (Some r'), st')"
      and "(success r' \<longleftrightarrow> truthy (file_path r')) \<and> (\<not> success r' \<longleftrightarrow> truthy (error_message r'))"
      by blast
    with run show ?thesis by auto
  qed
  have split: "{r \<in> set results. success r \<and> truthy (file_path r)} \<union>
      {r \<in> set results. \<not> success r \<and> truthy (error_message r)} = set results"
  proof (rule set_eqI)
    fix r
    show "r \<in> {r \<in> set results. success r \<and> truthy (file_path r)} \<union>
      {r \<in> set results. \<not> success r \<and> truthy (error_message r)} \<longleftrightarrow> r \<in> set results"
      using wf [of r] by auto
  qed
  have years: "year ` {r \<in> set results. success r \<and> truthy (file_path r)} \<union>
           fst ` set (get_failed_downloads results) = year ` set results"
    unfolding failed_years image_Un [symmetric] split ..
  have f1: "filter (\<lambda>r. success r \<and> truthy (file_path r)) results = filter success results"
  proof (rule filter_cong [OF refl])
    fix r assume "r \<in> set results"
    then show "(success r \<and> truthy (file_path r)) = success r" using wf [of r] by blast
  qed
  have f2: "filter (\<lambda>r. \<not> success r \<and> truthy (error_message r)) results =
      filter (\<lambda>r. \<not> success r) results"
  proof (rule filter_cong [OF refl])
    fix r assume "r \<in> set results"
    then show "(\<not> success r \<and> truthy (error_message r)) = (\<not> success r)"
      using wf [of r] by blast
  qed
  have lens: "length (get_successful_downloads results) +
      length (get_failed_downloads results) = length results"
    by (simp add: get_successful_downloads_def get_failed_downloads_def f1 f2
          sum_length_filter_compl)
  show ?thesis
    using successful_member [of _ results] failed_member [of _ _ results] years lens
    by simp
qed

text \<open>The success of 2020 and the failure of 2021.\<close>

theorem partition_complete_witness:
  "fst (process_year example_self world_station st0 2020) =
     Inr (Some (ok_result 2020 ''out/RJ_A652_2020.parquet'')) \<and>
   fst (process_year example_self world_no_station st0 2021) =
     Inr (Some (err_result 2021 ''No Rio de Janeiro A652 station data found for 2021'')) \<and>
   get_successful_downloads [ok_result 2020 ''out/RJ_A652_2020.parquet'',
       err_result 2021 ''No Rio de Janeiro A652 station data found for 2021''] =
     [''out/RJ_A652_2020.parquet''] \<and>
   get_failed_downloads [ok_result 2020 ''out/RJ_A652_2020.parquet'',
       err_result 2021 ''No Rio de Janeiro A652 station data found for 2021''] =
     [(2021, ''No Rio de Janeiro A652 station data found for 2021'')] \<and>
   length (get_successful_downloads [ok_result 2020 ''out/RJ_A652_2020.parquet'',
       err_result 2021 ''No Rio de Janeiro A652 station data found for 2021'']) +
   length (get_failed_downloads [ok_result 2020 ''out/RJ_A652_2020.parquet'',
       err_result 2021 ''No Rio de Janeiro A652 station data found for 2021'']) = 2"
proof -
  let ?rs = "[ok_result 2020 ''out/RJ_A652_2020.parquet'',
       err_result 2021 ''No Rio de Janeiro A652 station data found for 2021'']"
  have lens: "length (get_successful_downloads ?rs) + length (get_failed_downloads ?rs) =
      length ?rs"
    using partition_complete [OF example_results_produced] by blast
  have "get_successful_downloads ?rs = [''out/RJ_A652_2020.parquet'']"
    by (simp add: get_successful_downloads_def)
  moreover have "get_failed_downloads ?rs =
      [(2021, ''No Rio de Janeiro A652 station data found for 2021'')]"
    by (simp add: get_failed_downloads_def)
  ultimately show ?thesis
    using lens by (simp add: example_station_2020 example_no_station_2021)
qed

lemma output_file_of_sep:
  "output_dir self \<noteq> [] \<Longrightarrow> last (output_dir self) \<noteq> CHR ''/'' \<Longrightarrow>
   output_file_of self y = output_dir self @ ''/RJ_A652_'' @ str_int y @ ''.parquet''"
  by (simp add: output_file_of_def path_join_def)

lemma output_file_of_nosep:
  "last (output_dir self) = CHR ''/'' \<Longrightarrow>
   output_file_of self y = output_dir self @ ''RJ_A652_'' @ str_int y @ ''.parquet''"
  by (simp add: output_file_of_def path_join_def)

lemma process_year_existing:
  "path_exists st (output_file_of self y) \<Longrightarrow>
   process_year self e st y = (Inr (Some (ok_result y (output_file_of self y))), st)"
  by (simp add: process_year_def)

lemma world_no_station_writes: "write_parquet world_no_station df p = Wrote"
  by (simp add: world_no_station_def)

section \<open>The output path\<close>

text \<open>
  Claim C1, as the specification states it: the output path of year \<open>y\<close> is
  \<open>{output_dir}/A652_{y}.parquet\<close>, and a successful run for 2020 carries
  \<open>out/A652_2020.parquet\<close>. The program names the file \<open>RJ_A652_2020.parquet\<close>:
  in the directory \<open>out\<close> the path of 2020 is another one, and the run for 2020 on a
  station file with eight leading lines succeeds with it.
\<close>

theorem output_path_counterexample:
  "output_dir example_self = ''out'' \<and>
   output_file_of example_self 2020 = ''out/RJ_A652_2020.parquet'' \<and>
   fst (process_year example_self world_station st0 2020) =
     Inr (Some (ok_result 2020 ''out/RJ_A652_2020.parquet'')) \<and>
   file_path (ok_result 2020 ''out/RJ_A652_2020.parquet'') \<noteq> Some ''out/A652_2020.parquet''"
  by (simp add: example_station_2020 example_output_dir example_output_file)

text \<open>
  Claim C1, amended: the output path of year \<open>y\<close> is \<open>os.path.join\<close> of the output
  directory and \<open>RJ_A652_{y}.parquet\<close>, that is \<open>{output_dir}/RJ_A652_{y}.parquet\<close>, the
  separator being left out when the directory name already ends in a slash. This path
  decides the check for an existing file, and every successful result carries it; the
  decimal form of 2020 is \<open>2020\<close>.
\<close>

theorem output_path_RJ_A652:
  "(output_dir self \<noteq> [] \<and> last (output_dir self) \<noteq> CHR ''/'' \<longrightarrow>
      output_file_of self y = output_dir self @ ''/RJ_A652_'' @ str_int y @ ''.parquet'') \<and>
   (output_dir self \<noteq> [] \<and> last (output_dir self) = CHR ''/'' \<longrightarrow>
      output_file_of self y = output_dir self @ ''RJ_A652_'' @ str_int y @ ''.parquet'') \<and>
   (path_exists st (output_file_of self y) \<longrightarrow>
      fst (process_year self e st y) = Inr (Some (ok_result y (output_file_of self y)))) \<and>
   (\<forall>r. fst (process_year self e st y) = Inr (Some r) \<and> success r \<longrightarrow>
      file_path r = Some (output_file_of self y)) \<and>
   str_int 2020 = ''2020''"
proof -
  have "\<forall>r. fst (process_year self e st y) = Inr (Some r) \<and> success r \<longrightarrow>
      file_path r = Some (output_file_of self y)"
    using process_year_success_path [of self e st y] by auto
  moreover have "path_exists st (output_file_of self y) \<longrightarrow>
      fst (process_year self e st y) = Inr (Some (ok_result y (output_file_of self y)))"
    by (simp add: process_year_def)
  ultimately show ?thesis
    using output_file_of_sep [of self y] output_file_of_nosep [of self y]
    by (simp add: str_int_examples)
qed

text \<open>The run for 2020 in the directory \<open>out\<close>, and a second call after it.\<close>

theorem output_path_RJ_A652_witness:
  "output_dir example_self \<noteq> [] \<and> last (output_dir example_self) \<noteq> CHR ''/'' \<and>
   output_file_of example_self 2020 = ''out/RJ_A652_2020.parquet'' \<and>
   fst (process_year example_self world_station st0 2020) =
     Inr (Some (ok_result 2020 ''out/RJ_A652_2020.parquet'')) \<and>
   success (ok_result 2020 ''out/RJ_A652_2020.parquet'') \<and>
   file_path (ok_result 2020 ''out/RJ_A652_2020.parquet'') = Some ''out/RJ_A652_2020.parquet'' \<and>
   path_exists (snd (process_year example_self world_station st0 2020))
     (output_file_of example_self 2020) \<and>
   fst (process_year example_self world_404
          (snd (process_year example_self world_station st0 2020)) 2020) =
     Inr (Some (ok_result 2020 ''out/RJ_A652_2020.parquet''))"
  using output_path_RJ_A652 [of example_self 2020
      "snd (process_year example_self world_station st0 2020)" world_404]
    output_path_RJ_A652 [of example_self 2020 st0 world_station]
  by (simp add: example_station_2020 example_output_file example_output_dir path_exists_def)

section \<open>Parsing and writing\<close>

text \<open>
  Claim C2, as the specification states it: the member is parsed skipping exactly 10
  leading lines, and a member with ten leading lines followed by valid rows gives a
  success and a file. The program passes \<open>skip_rows=8\<close>: on such a member, which read
  with ten lines skipped is a table, the reader raises, the result is a failure and no
  file is written.
\<close>

theorem skip_rows_counterexample:
  "read_csv world_ten_lines ten_line_csv CHR '';'' ''latin1'' 10 =
     Inr [[''a'', ''b''], [''c'', ''d'']] \<and>
   fst (process_year example_self world_ten_lines st0 2020) =
     Inr (Some (err_result 2020
       ''Unexpected error processing 2020: found more fields than defined in Schema'')) \<and>
   \<not> success (err_result 2020
       ''Unexpected error processing 2020: found more fields than defined in Schema'') \<and>
   fs (snd (process_year example_self world_ten_lines st0 2020)) ''out/RJ_A652_2020.parquet'' =
     None"
  by (simp add: example_ten_lines_2020 world_ten_lines_simps example_tables st0_sel)

text \<open>
  Claim C2, amended: when the output file is absent, the download succeeds, the archive
  opens and has a matching member, the first matching member is opened and read as text
  separated by semicolons, in latin1, with 8 leading lines skipped; when the writer
  returns, the table read is stored at the output path, the result is a success with that
  path, and one request has been made.
\<close>

theorem parse_and_write_first_member:
  assumes "\<not> path_exists st (output_file_of self y)"
    and "requests_get e (year_url self y) = Inr resp"
    and "raise_for_status resp = Inr ()"
    and "content resp = Inr body"
    and "ZipFile e body = Inr zip_ref"
    and "filter (str_in (station_identifier self)) (namelist zip_ref) = station_file # rest"
    and "zip_open zip_ref station_file = Inr f"
    and "read_csv e f CHR '';'' ''latin1'' 8 = Inr df"
    and "write_parquet e df (output_file_of self y) = Wrote"
  shows "process_year self e st y =
           (Inr (Some (ok_result y (output_file_of self y))),
            st\<lparr>requests := requests st @ [year_url self y],
               fs := (fs st)(output_file_of self y \<mapsto> df)\<rparr>)"
  using assms by (simp add: process_year_def try_block_def Let_def)

text \<open>The run for 2020 on the station file with eight leading lines.\<close>

theorem parse_and_write_first_member_witness:
  "process_year example_self world_station st0 2020 =
     (Inr (Some (ok_result 2020 (output_file_of example_self 2020))),
      st0\<lparr>requests := requests st0 @ [year_url example_self 2020],
          fs := (fs st0)(output_file_of example_self 2020 \<mapsto>
                  [[''a'', ''b''], [''c'', ''d''], [''e'', ''f'']])\<rparr>) \<and>
   read_csv world_station station_csv CHR '';'' ''latin1'' 8 =
     Inr [[''a'', ''b''], [''c'', ''d''], [''e'', ''f'']]"
  using parse_and_write_first_member [of st0 example_self 2020 world_station
      "ok_response (year_url example_self 2020)" "''PK''" zip_with_station station_name "[]"
      station_csv "[[''a'', ''b''], [''c'', ''d''], [''e'', ''f'']]"]
  by (simp add: st0_absent world_station_simps example_status example_content example_members
        example_open example_tables)

section \<open>Idempotence\<close>

text \<open>
  Claim C4: when the output file of year \<open>y\<close> exists, \<open>process_year\<close> returns the
  success with that path and leaves the state as it is, the list of requested addresses
  included, whatever the network would answer. So when the file is there after a first
  call, a second call (in any world) returns that success with no request made, and it is
  the result of the first call when the first call succeeded.
\<close>

theorem existing_file_skips_network:
  "(path_exists st (output_file_of self y) \<longrightarrow>
      process_year self e st y = (Inr (Some (ok_result y (output_file_of self y))), st)) \<and>
   (\<forall>r1 st1. process_year self e st y = (r1, st1) \<and> path_exists st1 (output_file_of self y) \<longrightarrow>
      process_year self e' st1 y = (Inr (Some (ok_result y (output_file_of self y))), st1) \<and>
      (\<forall>r. r1 = Inr (Some r) \<and> success r \<longrightarrow>
         process_year self e' st1 y = (r1, st1)))"
proof -
  have first: "\<And>s w. path_exists s (output_file_of self y) \<Longrightarrow>
      process_year self w s y = (Inr (Some (ok_result y (output_file_of self y))), s)"
    by (simp add: process_year_def)
  have same: "r1 = Inr (Some (ok_result y (output_file_of self y)))"
    if run: "process_year self e st y = (r1, st1)" and r: "r1 = Inr (Some r)" "success r"
    for r1 st1 r
  proof -
    have "fst (process_year self e st y) = Inr (Some r)" using run r by simp
    from this r(2) have "r = ok_result y (output_file_of self y)"
      by (rule process_year_success_path)
    with r(1) show ?thesis by simp
  qed
  show ?thesis
  proof (intro conjI allI impI)
    assume "path_exists st (output_file_of self y)"
    then show "process_year self e st y = (Inr (Some (ok_result y (output_file_of self y))), st)"
      by (rule first)
  next
    fix r1 st1
    assume "process_year self e st y = (r1, st1) \<and> path_exists st1 (output_file_of self y)"
    then show "process_year self e' st1 y =
        (Inr (Some (ok_result y (output_file_of self y))), st1)"
      using first by blast
  next
    fix r1 st1 r
    assume a: "process_year self e st y = (r1, st1) \<and> path_exists st1 (output_file_of self y)"
      and b: "r1 = Inr (Some r) \<and> success r"
    from a b have "r1 = Inr (Some (ok_result y (output_file_of self y)))"
      using same by blast
    moreover from a have "process_year self e' st1 y =
        (Inr (Some (ok_result y (output_file_of self y))), st1)"
      using first by blast
    ultimately show "process_year self e' st1 y = (r1, st1)" by simp
  qed
qed

text \<open>After the successful run for 2020, a second call against a server that answers 404.\<close>

theorem existing_file_skips_network_witness:
  "path_exists (snd (process_year example_self world_station st0 2020))
     (output_file_of example_self 2020) \<and>
   process_year example_self world_404 (snd (process_year example_self world_station st0 2020)) 2020 =
     (Inr (Some (ok_result 2020 ''out/RJ_A652_2020.parquet'')),
      snd (process_year example_self world_station st0 2020)) \<and>
   requests (snd (process_year example_self world_404
      (snd (process_year example_self world_station st0 2020)) 2020)) =
     [year_url example_self 2020]"
proof -
  let ?st1 = "snd (process_year example_self world_station st0 2020)"
  have there: "path_exists ?st1 (output_file_of example_self 2020)"
    by (simp add: example_station_2020 example_output_file path_exists_def)
  have "process_year example_self world_404 ?st1 2020 =
      (Inr (Some (ok_result 2020 (output_file_of example_self 2020))), ?st1)"
    using existing_file_skips_network [of ?st1 example_self 2020 world_404] there by blast
  moreover have "requests ?st1 = [year_url example_self 2020]"
    by (simp add: example_station_2020 st0_sel)
  ultimately show ?thesis using there by (simp add: example_output_file)
qed

section \<open>What a failure leaves on disk\<close>

text \<open>
  Claim C8, as the specification states it: when \<open>process_year\<close> returns a failure, no
  file was written at the output path, so a later call attempts the year again. The
  program removes nothing after a failure: when the writer raises after it has created
  the file, the result is a failure, the file is at the output path, and the next call
  returns a success without a request.
\<close>

theorem failed_write_leaves_file_counterexample:
  "fst (process_year example_self world_disk_full st0 2020) =
     Inr (Some (err_result 2020 ''Unexpected error processing 2020: No space left on device'')) \<and>
   \<not> success (err_result 2020 ''Unexpected error processing 2020: No space left on device'') \<and>
   path_exists (snd (process_year example_self world_disk_full st0 2020))
     ''out/RJ_A652_2020.parquet'' \<and>
   process_year example_self world_station
       (snd (process_year example_self world_disk_full st0 2020)) 2020 =
     (Inr (Some (ok_result 2020 ''out/RJ_A652_2020.parquet'')),
      snd (process_year example_self world_disk_full st0 2020))"
proof -
  let ?st1 = "snd (process_year example_self world_disk_full st0 2020)"
  have there: "path_exists ?st1 (output_file_of example_self 2020)"
    by (simp add: example_disk_full_2020 example_output_file path_exists_def)
  then have "process_year example_self world_station ?st1 2020 =
      (Inr (Some (ok_result 2020 (output_file_of example_self 2020))), ?st1)"
    by (rule process_year_existing)
  with there show ?thesis
    by (simp add: example_disk_full_2020 example_output_file)
qed

text \<open>
  Claim C8, amended: when \<open>process_year\<close> returns a failure, either the files on disk
  are those of before, no file is at the output path of the year and a later call for the
  year (in any world) requests the archive again; or the writer raised after creating the
  file, the file it left is at the output path, and a later call returns a success with
  no request.
\<close>

theorem failure_leaves_disk_or_partial_file:
  assumes "fst (process_year self e st y) = Inr (Some r)" and "\<not> success r"
  shows "(fs (snd (process_year self e st y)) = fs st \<and>
          \<not> path_exists (snd (process_year self e st y)) (output_file_of self y) \<and>
          requests (snd (process_year self e' (snd (process_year self e st y)) y)) =
            requests (snd (process_year self e st y)) @ [year_url self y]) \<or>
         (\<exists>df x part. write_parquet e df (output_file_of self y) = Failed x (Some part) \<and>
          fs (snd (process_year self e st y)) = (fs st)(output_file_of self y \<mapsto> part) \<and>
          process_year self e' (snd (process_year self e st y)) y =
            (Inr (Some (ok_result y (output_file_of self y))), snd (process_year self e st y)))"
proof -
  let ?p = "output_file_of self y"
  let ?st1 = "st\<lparr>requests := requests st @ [year_url self y]\<rparr>"
  from process_year_shape [of st self y e] assms
  consider (clean) m where "\<not> path_exists st ?p"
      "process_year self e st y = (Inr (Some (err_result y m)), ?st1)"
    | (left) m df x part where "write_parquet e df ?p = Failed x (Some part)"
      "process_year self e st y =
         (Inr (Some (err_result y m)),
          st\<lparr>requests := requests st @ [year_url self y], fs := (fs st)(?p \<mapsto> part)\<rparr>)"
    by auto
  then show ?thesis
  proof cases
    case clean
    have absent1: "\<not> path_exists ?st1 ?p"
      using clean(1) by (simp add: path_exists_def)
    have "requests (snd (process_year self e' ?st1 y)) = requests ?st1 @ [year_url self y]"
      using process_year_shape [of ?st1 self y e'] absent1 by auto
    with clean absent1 show ?thesis by simp
  next
    case left
    let ?st2 = "st\<lparr>requests := requests st @ [year_url self y], fs := (fs st)(?p \<mapsto> part)\<rparr>"
    have "path_exists ?st2 ?p" by (simp add: path_exists_def)
    then have "process_year self e' ?st2 y = (Inr (Some (ok_result y ?p)), ?st2)"
      by (rule process_year_existing)
    moreover have "fs ?st2 = (fs st)(?p \<mapsto> part)" by simp
    ultimately show ?thesis using left by auto
  qed
qed

text \<open>The failed run for 2021, where no writer is reached, followed by a second call.\<close>

theorem failure_leaves_disk_or_partial_file_witness:
  "fst (process_year example_self world_no_station st0 2021) =
     Inr (Some (err_result 2021 ''No Rio de Janeiro A652 station data found for 2021'')) \<and>
   \<not> success (err_result 2021 ''No Rio de Janeiro A652 station data found for 2021'') \<and>
   fs (snd (process_year example_self world_no_station st0 2021)) = fs st0 \<and>
   requests (snd (process_year example_self world_station
      (snd (process_year example_self world_no_station st0 2021)) 2021)) =
     [year_url example_self 2021, year_url example_self 2021]"
  using failure_leaves_disk_or_partial_file [of example_self world_no_station st0 2021
      "err_result 2021 ''No Rio de Janeiro A652 station data found for 2021''" world_station]
  by (simp add: example_no_station_2021 st0_sel world_no_station_writes)

lemma years_loop_threads:
  "\<exists>rs sts. length rs = length ys \<and> length sts = length ys + 1 \<and> sts ! 0 = st \<and>
      (\<forall>i < length ys. process_year self e (sts ! i) (ys ! i) =
                          (Inr (Some (rs ! i)), sts ! Suc i)) \<and>
      map year rs = ys \<and>
      years_loop self e st ys acc = (Inr (acc @ map Some rs), sts ! length ys)"
proof (induction ys arbitrary: st acc)
  case Nil
  show ?case
  proof (intro exI conjI)
    show "length ([]::DownloadResult list) = length ([]::int list)" by simp
    show "length [st] = length ([]::int list) + 1" by simp
    show "[st] ! 0 = st" by simp
    show "\<forall>i < length ([]::int list). process_year self e ([st] ! i) ([] ! i) =
                          (Inr (Some ([] ! i)), [st] ! Suc i)" by simp
    show "map year [] = []" by simp
    show "years_loop self e st [] acc = (Inr (acc @ map Some []), [st] ! length ([]::int list))"
      by simp
  qed
next
  case (Cons y ys)
  obtain r st1 where step: "process_year self e st y = (Inr (Some r), st1)" and yr: "year r = y"
    using process_year_returns [of self e st y] by blast
  obtain rs sts where len: "length rs = length ys" "length sts = length ys + 1"
    and first: "sts ! 0 = st1"
    and calls: "\<forall>i < length ys. process_year self e (sts ! i) (ys ! i) =
                          (Inr (Some (rs ! i)), sts ! Suc i)"
    and years: "map year rs = ys"
    and rest: "years_loop self e st1 ys (acc @ [Some r]) =
        (Inr ((acc @ [Some r]) @ map Some rs), sts ! length ys)"
    using Cons.IH [of st1 "acc @ [Some r]"] by blast
  show ?case
  proof (intro exI conjI)
    show "length (r # rs) = length (y # ys)" using len(1) by simp
    show "length (st # sts) = length (y # ys) + 1" using len(2) by simp
    show "(st # sts) ! 0 = st" by simp
    show "\<forall>i < length (y # ys). process_year self e ((st # sts) ! i) ((y # ys) ! i) =
                          (Inr (Some ((r # rs) ! i)), (st # sts) ! Suc i)"
    proof (intro allI impI)
      fix i assume i: "i < length (y # ys)"
      show "process_year self e ((st # sts) ! i) ((y # ys) ! i) =
                          (Inr (Some ((r # rs) ! i)), (st # sts) ! Suc i)"
      proof (cases i)
        case 0
        have "process_year self e st y = (Inr (Some r), sts ! 0)"
          using step first by simp
        then show ?thesis unfolding 0 by simp
      next
        case (Suc j)
        with i have "j < length ys" by simp
        with calls have "process_year self e (sts ! j) (ys ! j) =
            (Inr (Some (rs ! j)), sts ! Suc j)" by blast
        then show ?thesis unfolding Suc by simp
      qed
    qed
    show "map year (r # rs) = y # ys" using years yr by simp
    have "years_loop self e st (y # ys) acc = years_loop self e st1 ys (acc @ [Some r])"
      by (simp add: step)
    also have "\<dots> = (Inr ((acc @ [Some r]) @ map Some rs), sts ! length ys)" by (rule rest)
    finally show "years_loop self e st (y # ys) acc =
        (Inr (acc @ map Some (r # rs)), (st # sts) ! length (y # ys))" by simp
  qed
qed

lemma three_elements: "length xs = 3 \<Longrightarrow> xs = [xs ! 0, xs ! 1, xs ! 2]"
proof -
  assume "length xs = 3"
  then obtain a b c where "xs = [a, b, c]"
    by (cases xs; simp; cases "tl xs"; simp; cases "tl (tl xs)"; simp) 
  then show ?thesis by simp
qed

section \<open>All years\<close>

text \<open>
  Claim C5: for a scraper with \<open>start_year \<le> current_year\<close>, \<open>process_all_years\<close>
  returns a list of \<open>current_year - start_year + 1\<close> records, whose years are
  \<open>start_year, ..., current_year\<close> in ascending order. The record at position \<open>i\<close> is
  what the call of \<open>process_year\<close> for the year \<open>start_year + i\<close> returns in the state
  that the call before it left (the first call runs in the initial state), and the final
  state is the one the last call left: one call per year, in sequence, in every world and
  so whatever calls fail.
\<close>

theorem process_all_years_exhaustive:
  assumes "start_year self \<le> current_year self"
  shows "\<exists>rs sts.
           process_all_years self e st = (Inr (map Some rs), sts ! length rs) \<and>
           length rs = nat (current_year self - start_year self + 1) \<and>
           map year rs = [start_year self..current_year self] \<and>
           length sts = length rs + 1 \<and>
           sts ! 0 = st \<and>
           (\<forall>i < length rs. process_year self e (sts ! i) (start_year self + int i) =
                               (Inr (Some (rs ! i)), sts ! Suc i))"
proof -
  let ?ys = "[start_year self..current_year self]"
  obtain rs sts where len: "length rs = length ?ys" "length sts = length ?ys + 1"
    and first: "sts ! 0 = st"
    and calls: "\<forall>i < length ?ys. process_year self e (sts ! i) (?ys ! i) =
                          (Inr (Some (rs ! i)), sts ! Suc i)"
    and years: "map year rs = ?ys"
    and run: "years_loop self e st ?ys [] = (Inr ([] @ map Some rs), sts ! length ?ys)"
    using years_loop_threads [of ?ys st self e "[]"] by blast
  show ?thesis
  proof (intro exI conjI)
    show "process_all_years self e st = (Inr (map Some rs), sts ! length rs)"
      using run len(1) by (simp add: process_all_years_def py_range_def)
    show "length rs = nat (current_year self - start_year self + 1)"
      using len(1) by simp
    show "map year rs = ?ys" by (rule years)
    show "length sts = length rs + 1" using len by simp
    show "sts ! 0 = st" by (rule first)
    show "\<forall>i < length rs. process_year self e (sts ! i) (start_year self + int i) =
                               (Inr (Some (rs ! i)), sts ! Suc i)"
    proof (intro allI impI)
      fix i assume "i < length rs"
      then have il: "i < length ?ys" using len(1) by simp
      with calls have c: "process_year self e (sts ! i) (?ys ! i) =
          (Inr (Some (rs ! i)), sts ! Suc i)" by blast
      have "?ys ! i = start_year self + int i"
        using il by (simp add: nth_upto)
      with c show "process_year self e (sts ! i) (start_year self + int i) =
          (Inr (Some (rs ! i)), sts ! Suc i)" by simp
    qed
  qed
qed


lemma example_404_step:
  assumes "fs st = Map.empty"
    and "process_year example_self world_404 st y = (Inr (Some r), st')"
  shows "r = err_result y (''Error downloading data for '' @ str_int y
             @ '': 404 Client Error: Not Found for url: '' @ year_url example_self y) \<and>
         st' = st\<lparr>requests := requests st @ [year_url example_self y]\<rparr> \<and>
         fs st' = Map.empty"
proof -
  have "\<not> path_exists st (output_file_of example_self y)"
    using assms(1) by (simp add: path_exists_def)
  then have "process_year example_self world_404 st y =
     (Inr (Some (err_result y (''Error downloading data for '' @ str_int y
        @ '': 404 Client Error: Not Found for url: '' @ year_url example_self y))),
      st\<lparr>requests := requests st @ [year_url example_self y]\<rparr>)"
    by (rule example_404)
  with assms show ?thesis by auto
qed

lemma example_start: "start_year example_self = 2019" "current_year example_self = 2021"
  by (simp_all add: example_self_def init_def)

text \<open>The years 2019 to 2021 against a server that answers 404 each time.\<close>

theorem process_all_years_exhaustive_witness:
  "start_year example_self \<le> current_year example_self \<and>
   process_all_years example_self world_404 st0 =
     (Inr [Some (err_result 2019 (''Error downloading data for 2019: 404 Client Error: Not Found for url: ''
              @ year_url example_self 2019)),
           Some (err_result 2020 (''Error downloading data for 2020: 404 Client Error: Not Found for url: ''
              @ year_url example_self 2020)),
           Some (err_result 2021 (''Error downloading data for 2021: 404 Client Error: Not Found for url: ''
              @ year_url example_self 2021))],
      st0\<lparr>requests := [year_url example_self 2019, year_url example_self 2020,
                        year_url example_self 2021]\<rparr>)"
proof -
  have h: "start_year example_self \<le> current_year example_self"
    by (simp add: example_start)
  from process_all_years_exhaustive [OF h, of world_404 st0]
  obtain rs sts where all: "process_all_years example_self world_404 st0 =
        (Inr (map Some rs), sts ! length rs)"
    and len: "length rs = nat (current_year example_self - start_year example_self + 1)"
    and first: "sts ! 0 = st0"
    and calls: "\<forall>i < length rs. process_year example_self world_404 (sts ! i)
          (start_year example_self + int i) = (Inr (Some (rs ! i)), sts ! Suc i)"
    by blast
  have len3: "length rs = 3" using len by (simp add: example_start)
  have c0: "process_year example_self world_404 st0 2019 = (Inr (Some (rs ! 0)), sts ! 1)"
    using calls len3 first by (auto simp: example_start dest: spec [of _ 0])
  have c1: "process_year example_self world_404 (sts ! 1) 2020 = (Inr (Some (rs ! 1)), sts ! 2)"
    using calls len3 by (auto simp: example_start numeral_2_eq_2 dest: spec [of _ 1])
  have c2: "process_year example_self world_404 (sts ! 2) 2021 = (Inr (Some (rs ! 2)), sts ! 3)"
    using calls len3 by (auto simp: example_start numeral_3_eq_3 numeral_2_eq_2 dest: spec [of _ 2])
  have s0: "fs st0 = Map.empty" by (rule st0_sel)
  note r0 = example_404_step [OF s0 c0]
  from r0 have s1: "fs (sts ! 1) = Map.empty" by blast
  note r1 = example_404_step [OF s1 c1]
  from r1 have s2: "fs (sts ! 2) = Map.empty" by blast
  note r2 = example_404_step [OF s2 c2]
  have rs: "rs = [rs ! 0, rs ! 1, rs ! 2]" using len3 by (rule three_elements)
  have final: "sts ! 3 = st0\<lparr>requests := [year_url example_self 2019,
      year_url example_self 2020, year_url example_self 2021]\<rparr>"
    using r0 r1 r2 by (simp add: st0_sel)
  have "map Some rs = [Some (rs ! 0), Some (rs ! 1), Some (rs ! 2)]"
    by (subst rs) simp
  with all len3 final r0 r1 r2 h show ?thesis
    by (simp add: str_int_examples)
qed

end
